theory Spec2Isabelle
  imports Complex_Main "HOL-Library.Char_ord" "HOL-Library.List_Lexorder"
begin

section \<open>Python values, exceptions and strings\<close>

text \<open>
  The three modules under verification are \<^verbatim>\<open>model_config.py\<close>, \<^verbatim>\<open>query_handler.py\<close> and
  \<^verbatim>\<open>document_loader.py\<close>. They are dynamically typed glue around external libraries, so
  the embedding keeps the few Python values the code can meet in a usage field
  (\<^verbatim>\<open>None\<close>, an int, a string, a dict), makes every \<^verbatim>\<open>raise\<close> a value of a sum type, and
  takes what the outside world answers (environment variables, the client constructors,
  the provider client's \<^verbatim>\<open>invoke\<close>, the clock, the HTTP client, the file system, the
  PDF parser, the tokenizer) as explicit parameters, each of which may answer with an
  exception.

  Python floats are modelled by \<^typ>\<open>real\<close>: the arithmetic of the cost formula is kept as
  the code writes it, its rounding to binary64 is not modelled.
\<close>

datatype pyval =
    PNone
  | PInt int
  | PStr string
  | PDict "(string \<times> pyval) list"

text \<open>
  An exception of class \<^verbatim>\<open>Exception\<close>. \<open>ExternalError msg\<close> is one raised inside an
  external library call (provider client, HTTP client, PDF parser) whose \<^verbatim>\<open>str(e)\<close> is
  \<open>msg\<close>.
\<close>

datatype py_exn =
    ValueError string
  | KeyError string
  | AttributeError string
  | TypeError string
  | ExternalError string

definition sq :: string where
  "sq = [CHR 0x27]"

definition nl :: string where
  "nl = [CHR 0x0A]"

text \<open>\<^verbatim>\<open>str(e)\<close>; for a \<^verbatim>\<open>KeyError\<close> it is the \<^verbatim>\<open>repr\<close> of the key.\<close>

fun str_exn :: "py_exn \<Rightarrow> string" where
  "str_exn (ValueError m) = m"
| "str_exn (KeyError k) = sq @ k @ sq"
| "str_exn (AttributeError m) = m"
| "str_exn (TypeError m) = m"
| "str_exn (ExternalError m) = m"

text \<open>\<^verbatim>\<open>type(v).__name__\<close>, as CPython prints it in its error messages.\<close>

fun type_name :: "pyval \<Rightarrow> string" where
  "type_name PNone = ''NoneType''"
| "type_name (PInt _) = ''int''"
| "type_name (PStr _) = ''str''"
| "type_name (PDict _) = ''dict''"

text \<open>\<^verbatim>\<open>v.get(key, default)\<close>: only a dict has the method.\<close>

fun py_get :: "pyval \<Rightarrow> string \<Rightarrow> pyval \<Rightarrow> py_exn + pyval" where
  "py_get (PDict d) k dflt = Inr (case map_of d k of None \<Rightarrow> dflt | Some v \<Rightarrow> v)"
| "py_get v k dflt =
     Inl (AttributeError (sq @ type_name v @ sq @ '' object has no attribute '' @ sq @ ''get'' @ sq))"

text \<open>\<^verbatim>\<open>v / d\<close> for an int literal \<open>d\<close>: true division, defined on numbers only.\<close>

fun true_div :: "pyval \<Rightarrow> int \<Rightarrow> py_exn + real" where
  "true_div (PInt i) d = Inr (real_of_int i / real_of_int d)"
| "true_div v d =
     Inl (TypeError (''unsupported operand type(s) for /: '' @ sq @ type_name v @ sq
                     @ '' and '' @ sq @ ''int'' @ sq))"

text \<open>\<^verbatim>\<open>p in s\<close> on strings: \<open>p\<close> occurs in \<open>s\<close> as a contiguous substring.\<close>

fun starts_with :: "string \<Rightarrow> string \<Rightarrow> bool" where
  "starts_with [] s = True"
| "starts_with (p # ps) [] = False"
| "starts_with (p # ps) (c # cs) = (p = c \<and> starts_with ps cs)"

fun str_contains :: "string \<Rightarrow> string \<Rightarrow> bool" where
  "str_contains p [] = (p = [])"
| "str_contains p (c # cs) = (starts_with p (c # cs) \<or> str_contains p cs)"


type_synonym environ = "string \<Rightarrow> string option"


section \<open>model\_config.py\<close>

text \<open>
  One entry of the table: the keys \<^verbatim>\<open>"input"\<close>, \<^verbatim>\<open>"output"\<close> and \<^verbatim>\<open>"name"\<close>.
\<close>

record pricing =
  input_price :: real
  output_price :: real
  display_name :: string

text \<open>Pricing per 1M tokens (input, output).\<close>

definition MODEL_PRICING :: "string \<Rightarrow> pricing option" where
  "MODEL_PRICING = map_of
     [(''gpt-5'', \<lparr>input_price = 2.50, output_price = 10.00, display_name = ''GPT-5''\<rparr>),
      (''claude-sonnet-4-5-20250929'',
         \<lparr>input_price = 3.00, output_price = 15.00, display_name = ''Claude Sonnet 4.5''\<rparr>),
      (''deepseek-chat'', \<lparr>input_price = 0.28, output_price = 0.42, display_name = ''DeepSeek v3.2-Exp''\<rparr>),
      (''deepseek-chat-v3.1'',
         \<lparr>input_price = 0.55, output_price = 2.19, display_name = ''DeepSeek v3.1-Terminus''\<rparr>)]"

datatype chat_class = ChatOpenAI | ChatAnthropic

text \<open>
  One call of a client constructor: the class and the keyword arguments \<^verbatim>\<open>get_model\<close>
  passes. \<open>api_key\<close> is what \<^verbatim>\<open>os.getenv\<close> gave (\<open>None\<close> when the variable is
  unset), \<open>base_url\<close> is \<open>None\<close> where the argument is not passed.
\<close>

record client_args =
  chat_class :: chat_class
  client_model :: string
  temperature :: int
  api_key :: "string option"
  base_url :: "string option"

text \<open>
  \<^verbatim>\<open>get_model\<close>. The constructors \<^verbatim>\<open>ChatOpenAI\<close> and \<^verbatim>\<open>ChatAnthropic\<close> are library code:
  \<open>new_client\<close> stands for them, and answers a call with the client object it builds,
  of a type \<open>'c\<close> the embedding does not look into, or with the exception it raises
  (as the libraries do when they find no credential). \<^verbatim>\<open>get_model\<close> returns the one or
  lets the other through.
\<close>

definition get_model ::
  "environ \<Rightarrow> (client_args \<Rightarrow> py_exn + 'c) \<Rightarrow> string \<Rightarrow> py_exn + 'c" where
  "get_model getenv new_client model_name =
     (if model_name = ''gpt-5'' then
        new_client \<lparr>chat_class = ChatOpenAI, client_model = ''gpt-5'', temperature = 0,
                   api_key = getenv ''OPENAI_API_KEY'', base_url = None\<rparr>
      else if model_name = ''claude-sonnet-4-5-20250929'' then
        new_client \<lparr>chat_class = ChatAnthropic, client_model = ''claude-sonnet-4-5-20250929'',
                   temperature = 0, api_key = getenv ''ANTHROPIC_API_KEY'', base_url = None\<rparr>
      else if model_name = ''deepseek-chat'' then
        new_client \<lparr>chat_class = ChatOpenAI, client_model = ''deepseek-chat'', temperature = 0,
                   api_key = getenv ''DEEPSEEK_API_KEY'',
                   base_url = Some ''https://api.deepseek.com''\<rparr>
      else if model_name = ''deepseek-chat-v3.1'' then
        new_client \<lparr>chat_class = ChatOpenAI, client_model = ''deepseek-chat'', temperature = 0,
                   api_key = getenv ''DEEPSEEK_API_KEY'',
                   base_url = Some ''https://api.deepseek.com/v3.1_terminus_expires_on_20251015''\<rparr>
      else Inl (ValueError (''Unknown model: '' @ model_name)))"

text \<open>
  \<^verbatim>\<open>calculate_cost\<close>: the table lookup raises \<^verbatim>\<open>KeyError\<close> on an unpriced model, each
  division raises \<^verbatim>\<open>TypeError\<close> on a count that is not a number, in the order the code
  evaluates them.
\<close>

definition calculate_cost :: "string \<Rightarrow> pyval \<Rightarrow> pyval \<Rightarrow> py_exn + real" where
  "calculate_cost model_name input_tokens output_tokens =
     (case MODEL_PRICING model_name of
        None \<Rightarrow> Inl (KeyError model_name)
      | Some pricing \<Rightarrow>
          (case true_div input_tokens 1000000 of
             Inl e \<Rightarrow> Inl e
           | Inr a \<Rightarrow>
               (let input_cost = a * input_price pricing in
                case true_div output_tokens 1000000 of
                  Inl e \<Rightarrow> Inl e
                | Inr b \<Rightarrow>
                    (let output_cost = b * output_price pricing in
                     Inr (input_cost + output_cost)))))"

text \<open>
  The HTTP client: a request is the URL, the headers and the timeout in seconds;
  \<^verbatim>\<open>requests.get\<close> answers with a response or raises; \<^verbatim>\<open>response.json()\<close> yields the
  parsed body or raises on a malformed one.
\<close>

record http_request =
  url :: string
  headers :: "(string \<times> string) list"
  timeout :: nat

record http_response =
  status_code :: int
  json :: "py_exn + pyval"

type_synonym http = "http_request \<Rightarrow> py_exn + http_response"

text \<open>
  \<^verbatim>\<open>check_deepseek_balance\<close> returns a Python value (\<open>PNone\<close> for \<^verbatim>\<open>None\<close>) together
  with the list of requests it sent, so that "no network call" can be stated.
  \<^verbatim>\<open>if not api_key\<close> is true for an unset variable and for an empty one.
\<close>

definition check_deepseek_balance :: "environ \<Rightarrow> http \<Rightarrow> pyval \<times> http_request list" where
  "check_deepseek_balance getenv requests_get =
     (case getenv ''DEEPSEEK_API_KEY'' of
        None \<Rightarrow> (PNone, [])
      | Some key \<Rightarrow>
          if key = [] then (PNone, [])
          else
            (let req = \<lparr>url = ''https://api.deepseek.com/user/balance'',
                        headers = [(''Authorization'', ''Bearer '' @ key)],
                        timeout = 10\<rparr>
             in case requests_get req of
                  Inl e \<Rightarrow> (PNone, [req])
                | Inr resp \<Rightarrow>
                    if status_code resp = 200 then
                      (case json resp of
                         Inl e \<Rightarrow> (PNone, [req])
                       | Inr body \<Rightarrow> (body, [req]))
                    else (PNone, [req])))"


section \<open>query\_handler.py\<close>

datatype message = SystemMessage string | HumanMessage string

text \<open>
  What \<^verbatim>\<open>model.invoke\<close> returns, as far as \<^verbatim>\<open>query_model\<close> looks at it: the
  \<^verbatim>\<open>content\<close>, and the two attributes that \<^verbatim>\<open>hasattr\<close> probes. \<open>None\<close> means that
  the object has no such attribute; \<open>Some PNone\<close> that it has it with the value
  \<^verbatim>\<open>None\<close>, which is what a LangChain message holds in \<^verbatim>\<open>usage_metadata\<close> when the
  provider reported no usage. \<^verbatim>\<open>response_metadata\<close>, when there, is a dict.
\<close>

record ai_message =
  content :: string
  response_metadata :: "(string \<times> pyval) list option"
  usage_metadata :: "pyval option"

text \<open>
  The world \<^verbatim>\<open>query_model\<close> runs in: the environment variables, the client
  constructors, the answer of \<^verbatim>\<open>invoke\<close> (a message, or an exception raised), and the
  clock, \<open>clock n\<close> being what the \<open>n\<close>-th call of \<^verbatim>\<open>time.time()\<close> returns, counted
  from 0.
\<close>

record 'c world =
  getenv :: environ
  new_client :: "client_args \<Rightarrow> py_exn + 'c"
  invoke :: "'c \<Rightarrow> message list \<Rightarrow> py_exn + ai_message"
  clock :: "nat \<Rightarrow> real"

text \<open>The dict \<^verbatim>\<open>query_model\<close> returns, one field per key.\<close>

record query_result =
  model :: string
  response :: string
  input_tokens :: int
  output_tokens :: int
  total_tokens :: int
  cost :: real
  time :: real
  error :: "string option"

definition system_prompt :: "string \<Rightarrow> string" where
  "system_prompt ctx =
     ''Use the given context to answer the question.'' @ nl
     @ ''If you don'' @ sq @ ''t know the answer, say you don'' @ sq
     @ ''t know. Keep the answer concise.'' @ nl @ nl
     @ ''Context:'' @ nl @ ctx"

text \<open>
  Lines 45 to 55, the token usage: the \<^verbatim>\<open>'token_usage'\<close> entry of
  \<^verbatim>\<open>response_metadata\<close> first, else the \<^verbatim>\<open>usage_metadata\<close> attribute, else zeros.
  The counts are whatever values the dicts hold.
\<close>

definition extract_token_usage :: "ai_message \<Rightarrow> py_exn + pyval \<times> pyval" where
  "extract_token_usage resp =
     (case (case response_metadata resp of
              None \<Rightarrow> None
            | Some md \<Rightarrow> map_of md ''token_usage'') of
        Some token_usage \<Rightarrow>
          (case py_get token_usage ''prompt_tokens'' (PInt 0) of
             Inl e \<Rightarrow> Inl e
           | Inr tin \<Rightarrow>
               (case py_get token_usage ''completion_tokens'' (PInt 0) of
                  Inl e \<Rightarrow> Inl e
                | Inr tout \<Rightarrow> Inr (tin, tout)))
      | None \<Rightarrow>
          (case usage_metadata resp of
             Some um \<Rightarrow>
               (case py_get um ''input_tokens'' (PInt 0) of
                  Inl e \<Rightarrow> Inl e
                | Inr tin \<Rightarrow>
                    (case py_get um ''output_tokens'' (PInt 0) of
                       Inl e \<Rightarrow> Inl e
                     | Inr tout \<Rightarrow> Inr (tin, tout)))
           | None \<Rightarrow> Inr (PInt 0, PInt 0)))"

text \<open>
  The body of the \<^verbatim>\<open>try\<close>. An exception comes out with the number of clock readings
  taken so far, which tells the handler which reading is its own. Once
  \<^verbatim>\<open>calculate_cost\<close> has returned both counts are ints, so the last branch (the
  addition failing) is never taken; see \<open>calculate_cost_Inr_ints\<close>.
\<close>

definition try_block ::
  "'c world \<Rightarrow> string \<Rightarrow> 'c \<Rightarrow> message list \<Rightarrow> real \<Rightarrow> py_exn \<times> nat + query_result" where
  "try_block w model_name mdl messages start_time =
     (case invoke w mdl messages of
        Inl e \<Rightarrow> Inl (e, 1)
      | Inr resp \<Rightarrow>
          (let elapsed_time = clock w 1 - start_time in
           case extract_token_usage resp of
             Inl e \<Rightarrow> Inl (e, 2)
           | Inr (tin, tout) \<Rightarrow>
               (case calculate_cost model_name tin tout of
                  Inl e \<Rightarrow> Inl (e, 2)
                | Inr c \<Rightarrow>
                    (case MODEL_PRICING model_name of
                       None \<Rightarrow> Inl (KeyError model_name, 2)
                     | Some p \<Rightarrow>
                         (case (tin, tout) of
                            (PInt i, PInt j) \<Rightarrow>
                              Inr \<lparr>model = display_name p, response = content resp,
                                   input_tokens = i, output_tokens = j,
                                   total_tokens = i + j, cost = c,
                                   time = elapsed_time, error = None\<rparr>
                          | _ \<Rightarrow>
                              Inl (TypeError (''unsupported operand type(s) for +: '' @ sq
                                     @ type_name tin @ sq @ '' and '' @ sq @ type_name tout
                                     @ sq), 2))))))"

text \<open>Lines 75 to 79: the message is classified by substring, balance first.\<close>

definition classify_error :: "string \<Rightarrow> string" where
  "classify_error error_msg =
     (if str_contains ''402'' error_msg \<or> str_contains ''Insufficient Balance'' error_msg then
        ''Insufficient Balance - Please add credits to your DeepSeek account at https://platform.deepseek.com''
      else if str_contains ''401'' error_msg \<or> str_contains ''Unauthorized'' error_msg then
        ''Invalid API key - Please check your API key in .env file''
      else error_msg)"

text \<open>The \<^verbatim>\<open>except Exception as e\<close> handler; \<open>k\<close> is the index of its clock reading.\<close>

definition except_block ::
  "'c world \<Rightarrow> string \<Rightarrow> py_exn \<Rightarrow> nat \<Rightarrow> real \<Rightarrow> py_exn + query_result" where
  "except_block w model_name e k start_time =
     (let elapsed_time = clock w k - start_time;
          error_msg = classify_error (str_exn e)
      in case MODEL_PRICING model_name of
           None \<Rightarrow> Inl (KeyError model_name)
         | Some p \<Rightarrow>
             Inr \<lparr>model = display_name p, response = ''Error: '' @ error_msg,
                  input_tokens = 0, output_tokens = 0, total_tokens = 0, cost = 0,
                  time = elapsed_time, error = Some error_msg\<rparr>)"

text \<open>
  \<^verbatim>\<open>query_model\<close>. The call of \<^verbatim>\<open>get_model\<close> stands before the \<^verbatim>\<open>try\<close>, so what it
  raises, its own \<^verbatim>\<open>ValueError\<close> or an exception of the constructor, leaves the
  function.
\<close>

definition query_model ::
  "'c world \<Rightarrow> string \<Rightarrow> string \<Rightarrow> string \<Rightarrow> py_exn + query_result" where
  "query_model w model_name ctx question =
     (case get_model (getenv w) (new_client w) model_name of
        Inl e \<Rightarrow> Inl e
      | Inr mdl \<Rightarrow>
          (let messages = [SystemMessage (system_prompt ctx), HumanMessage question];
               start_time = clock w 0
           in case try_block w model_name mdl messages start_time of
                Inr result \<Rightarrow> Inr result
              | Inl (e, k) \<Rightarrow> except_block w model_name e k start_time))"


section \<open>document\_loader.py\<close>

text \<open>
  The world of the loader: \<open>glob_pdf d\<close> lists the names of the entries of directory
  \<open>d\<close> that match \<^verbatim>\<open>*.pdf\<close>, in the order the file system gives them;
  \<open>pdf_load d f\<close> is \<^verbatim>\<open>PyPDFLoader(...).load()\<close> on file \<open>f\<close> of \<open>d\<close>, the
  \<^verbatim>\<open>page_content\<close> of each page, or an exception; \<open>encode s\<close> is
  \<^verbatim>\<open>tiktoken.encoding_for_model("gpt-4").encode(s)\<close>, the tokens, or the exception that
  either call raises (tiktoken refuses a text that holds a special token). The paths of
  one directory sort as their names do, by code point.
\<close>

record loader_world =
  glob_pdf :: "string \<Rightarrow> string list"
  pdf_load :: "string \<Rightarrow> string \<Rightarrow> py_exn + string list"
  encode :: "string \<Rightarrow> py_exn + nat list"



definition count_tokens :: "loader_world \<Rightarrow> string \<Rightarrow> py_exn + nat" where
  "count_tokens w s = (case encode w s of Inl e \<Rightarrow> Inl e | Inr tokens \<Rightarrow> Inr (length tokens))"


section \<open>Concrete worlds\<close>

text \<open>Inputs at which the theorems below are instantiated and the code is evaluated.\<close>

definition env0 :: environ where
  "env0 = map_of [(''OPENAI_API_KEY'', ''sk-test''), (''DEEPSEEK_API_KEY'', ''ds-test'')]"

text \<open>
  A constructor that raises when it is given no key, with the message of the OpenAI
  client, and otherwise builds a client that is just the record of its arguments.
\<close>

definition strict_construct :: "client_args \<Rightarrow> py_exn + client_args" where
  "strict_construct args =
     (case api_key args of
        None \<Rightarrow>
          Inl (ExternalError ''The api_key client option must be set either by passing api_key to the client or by setting the OPENAI_API_KEY environment variable'')
      | Some k \<Rightarrow> Inr args)"

text \<open>
  A world with the two keys of \<open>env0\<close>, whose provider gives the same answer to every
  call, and whose clock reads 0, 1, 2, ... seconds.
\<close>

definition world_of :: "(py_exn + ai_message) \<Rightarrow> client_args world" where
  "world_of answer =
     \<lparr>getenv = env0, new_client = strict_construct, invoke = (\<lambda>mdl messages. answer),
      clock = real\<rparr>"




text \<open>A world whose provider call fails in transport.\<close>

definition failing_world :: "client_args world" where
  "failing_world = world_of (Inl (ExternalError ''Connection error.''))"


text \<open>A message in LangChain's unified format only: 100 input and 50 output tokens.\<close>

definition usage_message :: ai_message where
  "usage_message = \<lparr>content = ''hi'', response_metadata = Some [],
     usage_metadata = Some (PDict [(''input_tokens'', PInt 100), (''output_tokens'', PInt 50)])\<rparr>"

text \<open>Worlds whose provider call fails with a payment, an authentication, and an
  authentication error that quotes a key fragment holding the digits 402.\<close>

definition no_credit_world :: "client_args world" where
  "no_credit_world = world_of (Inl (ExternalError ''Error code: 402 - Payment Required''))"

definition bad_key_world :: "client_args world" where
  "bad_key_world = world_of (Inl (ExternalError ''Error code: 401 - Authentication Fails''))"

definition both_codes_world :: "client_args world" where
  "both_codes_world =
     world_of (Inl (ExternalError ''Error code: 401 - Incorrect API key provided: sk-proj-4029''))"


text \<open>
  A message as LangChain builds it when the provider reports no usage: an empty
  \<^verbatim>\<open>response_metadata\<close>, and the \<^verbatim>\<open>usage_metadata\<close> attribute there with value
  \<^verbatim>\<open>None\<close>.
\<close>

definition none_usage_message :: ai_message where
  "none_usage_message =
     \<lparr>content = ''hi'', response_metadata = Some [], usage_metadata = Some PNone\<rparr>"

text \<open>
  A message with both usage shapes; its \<^verbatim>\<open>token_usage\<close> has no \<^verbatim>\<open>prompt_tokens\<close>.
\<close>

definition both_shapes_message :: ai_message where
  "both_shapes_message =
     \<lparr>content = ''hi'',
      response_metadata = Some [(''token_usage'', PDict [(''completion_tokens'', PInt 7)])],
      usage_metadata = Some (PDict [(''input_tokens'', PInt 100), (''output_tokens'', PInt 50)])\<rparr>"


text \<open>
  The one request \<^verbatim>\<open>check_deepseek_balance\<close> sends: a GET of the balance endpoint with
  bearer authentication and a timeout of 10 seconds.
\<close>

definition balance_request :: "string \<Rightarrow> http_request" where
  "balance_request key =
     \<lparr>url = ''https://api.deepseek.com/user/balance'',
      headers = [(''Authorization'', ''Bearer '' @ key)], timeout = 10\<rparr>"

text \<open>An HTTP client that gives the same answer to every request, and a parsed body.\<close>

definition http_of :: "(py_exn + http_response) \<Rightarrow> http" where
  "http_of answer = (\<lambda>req. answer)"

definition balance_body :: pyval where
  "balance_body = PDict [(''balance_infos'', PDict [(''total_balance'', PStr ''10.00'')])]"








text \<open>A successful answer whose text itself begins with \<^verbatim>\<open>Error: \<close>, with no usage.\<close>

definition error_text_message :: ai_message where
  "error_text_message =
     \<lparr>content = ''Error: boom'', response_metadata = None, usage_metadata = None\<rparr>"


section \<open>The pricing table and the client factory\<close>

lemma MODEL_PRICING_known:
  "MODEL_PRICING m \<noteq> None \<longleftrightarrow>
     m \<in> {''gpt-5'', ''claude-sonnet-4-5-20250929'', ''deepseek-chat'', ''deepseek-chat-v3.1''}"
  by (simp add: MODEL_PRICING_def)

lemma get_model_Inr_known:
  "get_model env ctor m = Inr cl \<Longrightarrow> m \<in> {''gpt-5'', ''claude-sonnet-4-5-20250929'', ''deepseek-chat'', ''deepseek-chat-v3.1''}"
  by (auto simp: get_model_def split: if_splits)


text \<open>
  Claim C2, as amended. For each of the four identifiers \<^verbatim>\<open>get_model\<close> calls the client
  constructor of that provider with temperature 0, the credential read from that
  provider's environment variable and that provider's endpoint (the class default for
  gpt-5 and for Claude, DeepSeek's base URL for deepseek-chat, and for deepseek-chat-v3.1
  the same model name \<^verbatim>\<open>deepseek-chat\<close> with the versioned base URL), and its result is the
  constructor's: the client built, or the exception raised. For every other identifier
  it raises \<^verbatim>\<open>ValueError("Unknown model: ...")\<close>, the code's form of the UnknownModel
  error.
\<close>

theorem get_model_spec:
  "get_model env ctor ''gpt-5'' =
     ctor \<lparr>chat_class = ChatOpenAI, client_model = ''gpt-5'', temperature = 0,
           api_key = env ''OPENAI_API_KEY'', base_url = None\<rparr>
   \<and> get_model env ctor ''claude-sonnet-4-5-20250929'' =
     ctor \<lparr>chat_class = ChatAnthropic, client_model = ''claude-sonnet-4-5-20250929'',
           temperature = 0, api_key = env ''ANTHROPIC_API_KEY'', base_url = None\<rparr>
   \<and> get_model env ctor ''deepseek-chat'' =
     ctor \<lparr>chat_class = ChatOpenAI, client_model = ''deepseek-chat'', temperature = 0,
           api_key = env ''DEEPSEEK_API_KEY'', base_url = Some ''https://api.deepseek.com''\<rparr>
   \<and> get_model env ctor ''deepseek-chat-v3.1'' =
     ctor \<lparr>chat_class = ChatOpenAI, client_model = ''deepseek-chat'', temperature = 0,
           api_key = env ''DEEPSEEK_API_KEY'',
           base_url = Some ''https://api.deepseek.com/v3.1_terminus_expires_on_20251015''\<rparr>
   \<and> (m \<notin> {''gpt-5'', ''claude-sonnet-4-5-20250929'', ''deepseek-chat'', ''deepseek-chat-v3.1''}
        \<longrightarrow> get_model env ctor m = Inl (ValueError (''Unknown model: '' @ m)))"
  by (simp add: get_model_def)

theorem get_model_spec_witness:
  "''gpt-4'' \<notin> {''gpt-5'', ''claude-sonnet-4-5-20250929'', ''deepseek-chat'', ''deepseek-chat-v3.1''}
   \<and> get_model env0 strict_construct ''gpt-4'' = Inl (ValueError ''Unknown model: gpt-4'')
   \<and> get_model env0 strict_construct ''deepseek-chat-v3.1'' =
     Inr \<lparr>chat_class = ChatOpenAI, client_model = ''deepseek-chat'', temperature = 0,
          api_key = Some ''ds-test'',
          base_url = Some ''https://api.deepseek.com/v3.1_terminus_expires_on_20251015''\<rparr>"
  using get_model_spec [of env0 strict_construct "''gpt-4''"]
  by (simp add: env0_def strict_construct_def)

text \<open>
  Claim C2 as stated fails: with no credential in the environment the constructor
  raises, and \<^verbatim>\<open>get_model\<close> returns no client for an identifier of the set.
\<close>

theorem get_model_unset_key_counterexample:
  "get_model Map.empty strict_construct ''gpt-5'' = Inl (ExternalError ''The api_key client option must be set either by passing api_key to the client or by setting the OPENAI_API_KEY environment variable'')"
  by (simp add: get_model_def strict_construct_def)


section \<open>The cost calculator\<close>

text \<open>
  Claim C4. For a model \<open>m\<close> of the pricing table, with entry \<open>p\<close>, and all integer
  token counts \<open>i\<close> and \<open>j\<close>, \<^verbatim>\<open>calculate_cost\<close> returns
  \<open>(i / 1000000) * input_price + (j / 1000000) * output_price\<close> and nothing is rounded
  by the function; at a million tokens each it is the sum of the two prices, at zero
  tokens it is zero.
\<close>

theorem calculate_cost_formula:
  assumes "MODEL_PRICING m = Some p"
  shows "calculate_cost m (PInt i) (PInt j) =
           Inr ((real_of_int i / 1000000) * input_price p
                + (real_of_int j / 1000000) * output_price p)
         \<and> calculate_cost m (PInt 1000000) (PInt 1000000) = Inr (input_price p + output_price p)
         \<and> calculate_cost m (PInt 0) (PInt 0) = Inr 0"
  using assms by (simp add: calculate_cost_def)

theorem calculate_cost_formula_witness:
  "MODEL_PRICING ''deepseek-chat'' =
     Some \<lparr>input_price = 0.28, output_price = 0.42, display_name = ''DeepSeek v3.2-Exp''\<rparr>
   \<and> calculate_cost ''deepseek-chat'' (PInt 100) (PInt 50) = Inr 0.000049
   \<and> calculate_cost ''deepseek-chat'' (PInt 1000000) (PInt 1000000) = Inr 0.70
   \<and> calculate_cost ''deepseek-chat'' (PInt 0) (PInt 0) = Inr 0"
proof -
  have p: "MODEL_PRICING ''deepseek-chat'' =
     Some \<lparr>input_price = 0.28, output_price = 0.42, display_name = ''DeepSeek v3.2-Exp''\<rparr>"
    by (simp add: MODEL_PRICING_def)
  show ?thesis
    using p calculate_cost_formula [OF p, of 100 50] by simp
qed


section \<open>The query dispatcher: which failures are converted\<close>

lemma MODEL_PRICING_Some:
  "m \<in> {''gpt-5'', ''claude-sonnet-4-5-20250929'', ''deepseek-chat'', ''deepseek-chat-v3.1''}
   \<Longrightarrow> \<exists>p. MODEL_PRICING m = Some p"
  using MODEL_PRICING_known [of m] by blast

lemma get_model_Inr_priced:
  assumes "get_model env ctor m = Inr cl"
  shows "\<exists>p. MODEL_PRICING m = Some p"
  using get_model_Inr_known [OF assms] by (rule MODEL_PRICING_Some)

lemma calculate_cost_Inr_ints:
  "calculate_cost m tin tout = Inr c \<Longrightarrow> \<exists>i j. tin = PInt i \<and> tout = PInt j"
  by (cases tin; cases tout) (auto simp: calculate_cost_def split: option.splits)

lemma query_model_unfold:
  assumes "get_model (getenv w) (new_client w) m = Inr cl"
  shows "query_model w m c q =
           (case try_block w m cl [SystemMessage (system_prompt c), HumanMessage q] (clock w 0) of
              Inr r \<Rightarrow> Inr r
            | Inl (e, k) \<Rightarrow> except_block w m e k (clock w 0))"
  using assms by (simp add: query_model_def Let_def)

lemma except_block_priced:
  assumes "MODEL_PRICING m = Some p"
  shows "except_block w m e k st =
           Inr \<lparr>model = display_name p, response = ''Error: '' @ classify_error (str_exn e),
                input_tokens = 0, output_tokens = 0, total_tokens = 0, cost = 0,
                time = clock w k - st, error = Some (classify_error (str_exn e))\<rparr>"
  using assms by (simp add: except_block_def Let_def)

lemma query_model_caught:
  assumes cl: "get_model (getenv w) (new_client w) m = Inr cl"
    and p: "MODEL_PRICING m = Some p"
    and raised: "try_block w m cl [SystemMessage (system_prompt c), HumanMessage q] (clock w 0)
                   = Inl (e, k)"
  shows "query_model w m c q =
           Inr \<lparr>model = display_name p, response = ''Error: '' @ classify_error (str_exn e),
                input_tokens = 0, output_tokens = 0, total_tokens = 0, cost = 0,
                time = clock w k - clock w 0, error = Some (classify_error (str_exn e))\<rparr>"
  by (simp add: query_model_unfold [OF cl] raised except_block_priced [OF p])








section \<open>The query dispatcher: the result record\<close>

lemma MODEL_PRICING_nonneg:
  "MODEL_PRICING m = Some p \<Longrightarrow> 0 \<le> input_price p \<and> 0 \<le> output_price p"
  by (auto simp: MODEL_PRICING_def split: if_splits)

lemma calculate_cost_nonneg:
  assumes "calculate_cost m (PInt i) (PInt j) = Inr c" and "0 \<le> i" and "0 \<le> j"
  shows "0 \<le> c"
proof -
  from assms(1) obtain p where p: "MODEL_PRICING m = Some p"
    and c: "c = real_of_int i / 1000000 * input_price p + real_of_int j / 1000000 * output_price p"
    by (auto simp: calculate_cost_def split: option.splits)
  from MODEL_PRICING_nonneg [OF p] assms(2,3) show ?thesis
    unfolding c by simp
qed

lemma try_block_Inr:
  assumes "try_block w m cl msgs st = Inr r"
  shows "error r = None \<and> total_tokens r = input_tokens r + output_tokens r
         \<and> calculate_cost m (PInt (input_tokens r)) (PInt (output_tokens r)) = Inr (cost r)"
  using assms
  by (auto simp: try_block_def Let_def
           split: sum.splits option.splits prod.splits pyval.splits)

text \<open>
  Claim C5, as amended. Every record \<^verbatim>\<open>query_model\<close> returns has
  \<open>total_tokens = input_tokens + output_tokens\<close>; its cost is not negative when its
  token counts are not (the prices of the table are not); its \<open>error\<close> is present
  exactly when an exception was caught in the \<^verbatim>\<open>try\<close>; and when the \<open>error\<close> is
  present, the \<open>response\<close> is that error message after \<^verbatim>\<open>"Error: "\<close> and the three
  token fields and the cost are zero. The converse of the last part is not claimed.
\<close>

theorem query_result_invariant:
  assumes "query_model w m c q = Inr r"
  shows "total_tokens r = input_tokens r + output_tokens r
         \<and> (0 \<le> input_tokens r \<and> 0 \<le> output_tokens r \<longrightarrow> 0 \<le> cost r)
         \<and> (\<forall>msg. error r = Some msg \<longrightarrow>
                response r = ''Error: '' @ msg
                \<and> input_tokens r = 0 \<and> output_tokens r = 0 \<and> total_tokens r = 0
                \<and> cost r = 0)
         \<and> (\<exists>cl. get_model (getenv w) (new_client w) m = Inr cl
                \<and> (error r \<noteq> None \<longleftrightarrow>
                     (\<exists>e k. try_block w m cl [SystemMessage (system_prompt c), HumanMessage q] (clock w 0) = Inl (e, k))))"
proof -
  from assms obtain cl where cl: "get_model (getenv w) (new_client w) m = Inr cl"
    by (auto simp: query_model_def split: sum.splits)
  from get_model_Inr_priced [OF cl] obtain p where p: "MODEL_PRICING m = Some p"
    by blast
  let ?t = "try_block w m cl [SystemMessage (system_prompt c), HumanMessage q] (clock w 0)"
  show ?thesis
  proof (cases ?t)
    case (Inl ek)
    then obtain e k where raised: "?t = Inl (e, k)" by (cases ek) simp
    from query_model_caught [OF cl p raised] assms
    have "r = \<lparr>model = display_name p, response = ''Error: '' @ classify_error (str_exn e),
                input_tokens = 0, output_tokens = 0, total_tokens = 0, cost = 0,
                time = clock w k - clock w 0, error = Some (classify_error (str_exn e))\<rparr>"
      by simp
    with cl raised show ?thesis by simp
  next
    case (Inr r')
    with assms have ok: "?t = Inr r" by (simp add: query_model_unfold [OF cl])
    from try_block_Inr [OF ok]
    have e: "error r = None" and t: "total_tokens r = input_tokens r + output_tokens r"
      and cst: "calculate_cost m (PInt (input_tokens r)) (PInt (output_tokens r)) = Inr (cost r)"
      by simp_all
    have "0 \<le> input_tokens r \<and> 0 \<le> output_tokens r \<longrightarrow> 0 \<le> cost r"
      using calculate_cost_nonneg [OF cst] by blast
    with e t cl ok show ?thesis by simp
  qed
qed

theorem query_result_invariant_witness:
  "query_model (world_of (Inr usage_message)) ''gpt-5'' ''ctx'' ''q''
     = Inr \<lparr>model = ''GPT-5'', response = ''hi'', input_tokens = 100, output_tokens = 50,
            total_tokens = 150, cost = 0.00075, time = 1, error = None\<rparr>
   \<and> query_model failing_world ''gpt-5'' ''ctx'' ''q''
     = Inr \<lparr>model = ''GPT-5'', response = ''Error: Connection error.'', input_tokens = 0,
            output_tokens = 0, total_tokens = 0, cost = 0, time = 1,
            error = Some ''Connection error.''\<rparr>"
proof -
  have a: "query_model (world_of (Inr usage_message)) ''gpt-5'' ''ctx'' ''q''
     = Inr \<lparr>model = ''GPT-5'', response = ''hi'', input_tokens = 100, output_tokens = 50,
            total_tokens = 150, cost = 0.00075, time = 1, error = None\<rparr>"
    by (simp add: query_model_def get_model_def world_of_def env0_def strict_construct_def
          try_block_def usage_message_def extract_token_usage_def calculate_cost_def
          MODEL_PRICING_def Let_def)
  have b: "query_model failing_world ''gpt-5'' ''ctx'' ''q''
     = Inr \<lparr>model = ''GPT-5'', response = ''Error: Connection error.'', input_tokens = 0,
            output_tokens = 0, total_tokens = 0, cost = 0, time = 1,
            error = Some ''Connection error.''\<rparr>"
    by (simp add: query_model_def get_model_def failing_world_def world_of_def env0_def
          strict_construct_def try_block_def except_block_def classify_error_def
          MODEL_PRICING_def Let_def)
  from query_result_invariant [OF a] query_result_invariant [OF b] a b
  show ?thesis by simp
qed

text \<open>
  Claim C5 as stated fails in the converse direction: a successful answer whose text
  begins with \<^verbatim>\<open>Error: \<close> and that reports no usage gives a record whose \<open>response\<close>
  is an error-prefixed message and whose token fields and cost are zero, yet whose
  \<open>error\<close> is absent.
\<close>

theorem query_result_converse_counterexample:
  "query_model (world_of (Inr error_text_message)) ''gpt-5'' ''ctx'' ''q''
     = Inr \<lparr>model = ''GPT-5'', response = ''Error: boom'', input_tokens = 0,
            output_tokens = 0, total_tokens = 0, cost = 0, time = 1, error = None\<rparr>
   \<and> ''Error: boom'' = ''Error: '' @ ''boom''"
  by (simp add: query_model_def get_model_def world_of_def env0_def strict_construct_def
        try_block_def error_text_message_def extract_token_usage_def calculate_cost_def
        MODEL_PRICING_def Let_def)


section \<open>The query dispatcher: classification of the message\<close>

text \<open>
  Claim C6, as amended. Whenever the exception caught by the handler has a message
  containing \<^verbatim>\<open>402\<close> or \<^verbatim>\<open>Insufficient Balance\<close>, \<^verbatim>\<open>query_model\<close> returns a record
  whose \<open>error\<close> is the one fixed balance instruction, which contains
  \<^verbatim>\<open>Insufficient Balance\<close> and names DeepSeek's billing page
  \<^verbatim>\<open>https://platform.deepseek.com\<close> whichever provider was queried, with the cost and the
  token counts zero.
\<close>

theorem insufficient_balance_classified:
  assumes "get_model (getenv w) (new_client w) m = Inr cl"
    and "try_block w m cl [SystemMessage (system_prompt c), HumanMessage q] (clock w 0) = Inl (e, k)"
    and "str_contains ''402'' (str_exn e) \<or> str_contains ''Insufficient Balance'' (str_exn e)"
  shows "\<exists>r. query_model w m c q = Inr r
           \<and> error r = Some ''Insufficient Balance - Please add credits to your DeepSeek account at https://platform.deepseek.com''
           \<and> response r = ''Error: Insufficient Balance - Please add credits to your DeepSeek account at https://platform.deepseek.com''
           \<and> cost r = 0 \<and> input_tokens r = 0 \<and> output_tokens r = 0 \<and> total_tokens r = 0
           \<and> str_contains ''Insufficient Balance'' (the (error r))
           \<and> str_contains ''https://platform.deepseek.com'' (the (error r))"
proof -
  from get_model_Inr_priced [OF assms(1)] obtain p where p: "MODEL_PRICING m = Some p"
    by blast
  have "classify_error (str_exn e) = ''Insufficient Balance - Please add credits to your DeepSeek account at https://platform.deepseek.com''"
    using assms(3) by (simp add: classify_error_def)
  with query_model_caught [OF assms(1) p assms(2)] show ?thesis
    by simp
qed

theorem insufficient_balance_classified_witness:
  "get_model (getenv no_credit_world) (new_client no_credit_world) ''deepseek-chat''
     = Inr \<lparr>chat_class = ChatOpenAI, client_model = ''deepseek-chat'', temperature = 0,
            api_key = Some ''ds-test'', base_url = Some ''https://api.deepseek.com''\<rparr>
   \<and> try_block no_credit_world ''deepseek-chat''
         \<lparr>chat_class = ChatOpenAI, client_model = ''deepseek-chat'', temperature = 0,
          api_key = Some ''ds-test'', base_url = Some ''https://api.deepseek.com''\<rparr>
         [SystemMessage (system_prompt ''ctx''), HumanMessage ''q''] (clock no_credit_world 0)
       = Inl (ExternalError ''Error code: 402 - Payment Required'', 1)
   \<and> str_contains ''402'' (str_exn (ExternalError ''Error code: 402 - Payment Required''))
   \<and> (\<exists>r. query_model no_credit_world ''deepseek-chat'' ''ctx'' ''q'' = Inr r
          \<and> error r = Some ''Insufficient Balance - Please add credits to your DeepSeek account at https://platform.deepseek.com''
          \<and> cost r = 0 \<and> total_tokens r = 0)"
proof -
  let ?cl = "\<lparr>chat_class = ChatOpenAI, client_model = ''deepseek-chat'', temperature = 0,
          api_key = Some ''ds-test'', base_url = Some ''https://api.deepseek.com''\<rparr>"
  have g: "get_model (getenv no_credit_world) (new_client no_credit_world) ''deepseek-chat'' = Inr ?cl"
    by (simp add: get_model_def no_credit_world_def world_of_def env0_def strict_construct_def)
  have t: "try_block no_credit_world ''deepseek-chat'' ?cl
             [SystemMessage (system_prompt ''ctx''), HumanMessage ''q''] (clock no_credit_world 0)
           = Inl (ExternalError ''Error code: 402 - Payment Required'', 1)"
    by (simp add: try_block_def no_credit_world_def world_of_def)
  have s: "str_contains ''402'' (str_exn (ExternalError ''Error code: 402 - Payment Required''))"
    by simp
  from insufficient_balance_classified [OF g t disjI1 [OF s]] g t s
  show ?thesis by blast
qed

text \<open>
  Claim C6 as stated fails: a query of gpt-5, whose client is built for OpenAI's own
  endpoint with the OpenAI key, that fails with a 402 is told to add credits to the
  DeepSeek account, not at the billing page of the provider queried.
\<close>

theorem insufficient_balance_provider_counterexample:
  "get_model (getenv no_credit_world) (new_client no_credit_world) ''gpt-5''
     = Inr \<lparr>chat_class = ChatOpenAI, client_model = ''gpt-5'', temperature = 0,
            api_key = Some ''sk-test'', base_url = None\<rparr>
   \<and> query_model no_credit_world ''gpt-5'' ''ctx'' ''q''
     = Inr \<lparr>model = ''GPT-5'',
            response = ''Error: Insufficient Balance - Please add credits to your DeepSeek account at https://platform.deepseek.com'',
            input_tokens = 0, output_tokens = 0, total_tokens = 0, cost = 0, time = 1,
            error = Some ''Insufficient Balance - Please add credits to your DeepSeek account at https://platform.deepseek.com''\<rparr>
   \<and> str_contains ''your DeepSeek account at https://platform.deepseek.com'' ''Insufficient Balance - Please add credits to your DeepSeek account at https://platform.deepseek.com''"
  by (simp add: query_model_def get_model_def no_credit_world_def world_of_def env0_def
        strict_construct_def try_block_def except_block_def classify_error_def
        MODEL_PRICING_def Let_def)

text \<open>
  Claim C7, as amended. Whenever the caught exception's message contains \<^verbatim>\<open>401\<close> or
  \<^verbatim>\<open>Unauthorized\<close> and matches neither balance pattern (\<^verbatim>\<open>402\<close>,
  \<^verbatim>\<open>Insufficient Balance\<close>), the \<open>error\<close> is the invalid-API-key instruction; a
  message matching none of the four patterns is the \<open>error\<close> unchanged.
\<close>

theorem invalid_api_key_classified:
  assumes "get_model (getenv w) (new_client w) m = Inr cl"
    and "try_block w m cl [SystemMessage (system_prompt c), HumanMessage q] (clock w 0) = Inl (e, k)"
    and "\<not> (str_contains ''402'' (str_exn e) \<or> str_contains ''Insufficient Balance'' (str_exn e))"
  shows "\<exists>r. query_model w m c q = Inr r
           \<and> (str_contains ''401'' (str_exn e) \<or> str_contains ''Unauthorized'' (str_exn e)
                \<longrightarrow> error r = Some ''Invalid API key - Please check your API key in .env file'')
           \<and> (\<not> (str_contains ''401'' (str_exn e) \<or> str_contains ''Unauthorized'' (str_exn e))
                \<longrightarrow> error r = Some (str_exn e))"
proof -
  from get_model_Inr_priced [OF assms(1)] obtain p where p: "MODEL_PRICING m = Some p"
    by blast
  have "classify_error (str_exn e) =
          (if str_contains ''401'' (str_exn e) \<or> str_contains ''Unauthorized'' (str_exn e)
           then ''Invalid API key - Please check your API key in .env file'' else str_exn e)"
    using assms(3) by (simp add: classify_error_def)
  with query_model_caught [OF assms(1) p assms(2)] show ?thesis
    by simp
qed

theorem invalid_api_key_classified_witness:
  "\<not> (str_contains ''402'' ''Error code: 401 - Authentication Fails''
       \<or> str_contains ''Insufficient Balance'' ''Error code: 401 - Authentication Fails'')
   \<and> str_contains ''401'' ''Error code: 401 - Authentication Fails''
   \<and> (\<exists>r. query_model bad_key_world ''deepseek-chat'' ''ctx'' ''q'' = Inr r
          \<and> error r = Some ''Invalid API key - Please check your API key in .env file'')
   \<and> \<not> (str_contains ''402'' ''Connection error.''
       \<or> str_contains ''Insufficient Balance'' ''Connection error.'')
   \<and> \<not> (str_contains ''401'' ''Connection error.''
       \<or> str_contains ''Unauthorized'' ''Connection error.'')
   \<and> (\<exists>r. query_model failing_world ''deepseek-chat'' ''ctx'' ''q'' = Inr r
          \<and> error r = Some ''Connection error.'')"
proof -
  let ?cl = "\<lparr>chat_class = ChatOpenAI, client_model = ''deepseek-chat'', temperature = 0,
          api_key = Some ''ds-test'', base_url = Some ''https://api.deepseek.com''\<rparr>"
  let ?msgs = "[SystemMessage (system_prompt ''ctx''), HumanMessage ''q'']"
  have g1: "get_model (getenv bad_key_world) (new_client bad_key_world) ''deepseek-chat'' = Inr ?cl"
    by (simp add: get_model_def bad_key_world_def world_of_def env0_def strict_construct_def)
  have t1: "try_block bad_key_world ''deepseek-chat'' ?cl ?msgs (clock bad_key_world 0)
           = Inl (ExternalError ''Error code: 401 - Authentication Fails'', 1)"
    by (simp add: try_block_def bad_key_world_def world_of_def)
  have n1: "\<not> (str_contains ''402'' (str_exn (ExternalError ''Error code: 401 - Authentication Fails''))
       \<or> str_contains ''Insufficient Balance'' (str_exn (ExternalError ''Error code: 401 - Authentication Fails'')))"
    by simp
  have g2: "get_model (getenv failing_world) (new_client failing_world) ''deepseek-chat'' = Inr ?cl"
    by (simp add: get_model_def failing_world_def world_of_def env0_def strict_construct_def)
  have t2: "try_block failing_world ''deepseek-chat'' ?cl ?msgs (clock failing_world 0)
           = Inl (ExternalError ''Connection error.'', 1)"
    by (simp add: try_block_def failing_world_def world_of_def)
  have n2: "\<not> (str_contains ''402'' (str_exn (ExternalError ''Connection error.''))
       \<or> str_contains ''Insufficient Balance'' (str_exn (ExternalError ''Connection error.'')))"
    by simp
  from invalid_api_key_classified [OF g1 t1 n1]
  have a: "\<exists>r. query_model bad_key_world ''deepseek-chat'' ''ctx'' ''q'' = Inr r
          \<and> error r = Some ''Invalid API key - Please check your API key in .env file''"
    by simp
  from invalid_api_key_classified [OF g2 t2 n2]
  have b: "\<exists>r. query_model failing_world ''deepseek-chat'' ''ctx'' ''q'' = Inr r
          \<and> error r = Some ''Connection error.''"
    by simp
  from a b show ?thesis by simp
qed

text \<open>
  Claim C7 as stated fails: the balance patterns are tested first, so a message that
  contains \<^verbatim>\<open>401\<close> and also \<^verbatim>\<open>402\<close> is rewritten to the balance instruction, which
  does not contain \<^verbatim>\<open>Invalid API key\<close>.
\<close>

theorem invalid_api_key_counterexample:
  "str_contains ''401'' ''Error code: 401 - Incorrect API key provided: sk-proj-4029''
   \<and> query_model both_codes_world ''gpt-5'' ''ctx'' ''q''
     = Inr \<lparr>model = ''GPT-5'',
            response = ''Error: Insufficient Balance - Please add credits to your DeepSeek account at https://platform.deepseek.com'',
            input_tokens = 0, output_tokens = 0, total_tokens = 0, cost = 0, time = 1,
            error = Some ''Insufficient Balance - Please add credits to your DeepSeek account at https://platform.deepseek.com''\<rparr>
   \<and> \<not> str_contains ''Invalid API key''
         ''Insufficient Balance - Please add credits to your DeepSeek account at https://platform.deepseek.com''"
  by (simp add: query_model_def get_model_def both_codes_world_def world_of_def env0_def strict_construct_def try_block_def
        except_block_def classify_error_def MODEL_PRICING_def Let_def)


section \<open>The query dispatcher: token usage\<close>

text \<open>
  The three ways the extraction of lines 45 to 55 can go, and what \<^verbatim>\<open>query_model\<close>
  returns in each: counts read from the \<^verbatim>\<open>usage_metadata\<close> dict when there is no
  \<^verbatim>\<open>'token_usage'\<close> entry; zeros when the message has neither the entry nor the
  attribute; an \<^verbatim>\<open>AttributeError\<close>, caught by the handler, when the attribute is there
  but holds \<^verbatim>\<open>None\<close>.
\<close>

lemma query_model_success:
  assumes cl: "get_model (getenv w) (new_client w) m = Inr cl"
    and p: "MODEL_PRICING m = Some p"
    and inv: "invoke w cl [SystemMessage (system_prompt c), HumanMessage q] = Inr resp"
    and ex: "extract_token_usage resp = Inr (PInt i, PInt j)"
  shows "query_model w m c q =
           Inr \<lparr>model = display_name p, response = content resp,
                input_tokens = i, output_tokens = j, total_tokens = i + j,
                cost = real_of_int i / 1000000 * input_price p
                       + real_of_int j / 1000000 * output_price p,
                time = clock w 1 - clock w 0, error = None\<rparr>"
  by (simp add: query_model_unfold [OF cl] try_block_def inv ex calculate_cost_def p Let_def)

lemma query_model_extract_fails:
  assumes cl: "get_model (getenv w) (new_client w) m = Inr cl"
    and p: "MODEL_PRICING m = Some p"
    and inv: "invoke w cl [SystemMessage (system_prompt c), HumanMessage q] = Inr resp"
    and ex: "extract_token_usage resp = Inl e"
  shows "query_model w m c q =
           Inr \<lparr>model = display_name p, response = ''Error: '' @ classify_error (str_exn e),
                input_tokens = 0, output_tokens = 0, total_tokens = 0, cost = 0,
                time = clock w 2 - clock w 0, error = Some (classify_error (str_exn e))\<rparr>"
proof -
  have "try_block w m cl [SystemMessage (system_prompt c), HumanMessage q] (clock w 0) = Inl (e, 2)"
    by (simp add: try_block_def inv ex)
  from query_model_caught [OF cl p this] show ?thesis .
qed

lemma extract_usage_metadata_only:
  assumes "response_metadata resp = None \<or> (\<exists>md. response_metadata resp = Some md \<and> map_of md ''token_usage'' = None)"
    and "usage_metadata resp = Some (PDict um)"
  shows "extract_token_usage resp =
           Inr (case map_of um ''input_tokens'' of None \<Rightarrow> PInt 0 | Some v \<Rightarrow> v,
                case map_of um ''output_tokens'' of None \<Rightarrow> PInt 0 | Some v \<Rightarrow> v)"
  using assms by (auto simp: extract_token_usage_def)

lemma extract_no_attributes:
  assumes "response_metadata resp = None \<or> (\<exists>md. response_metadata resp = Some md \<and> map_of md ''token_usage'' = None)"
    and "usage_metadata resp = None"
  shows "extract_token_usage resp = Inr (PInt 0, PInt 0)"
  using assms by (auto simp: extract_token_usage_def)

lemma extract_none_valued:
  assumes "response_metadata resp = None \<or> (\<exists>md. response_metadata resp = Some md \<and> map_of md ''token_usage'' = None)"
    and "usage_metadata resp = Some PNone"
  shows "extract_token_usage resp =
           Inl (AttributeError (sq @ ''NoneType'' @ sq @ '' object has no attribute '' @ sq @ ''get'' @ sq))"
  using assms by (auto simp: extract_token_usage_def)

lemma extract_token_usage_entry:
  assumes "response_metadata resp = Some md"
    and "map_of md ''token_usage'' = Some (PDict tu)"
  shows "extract_token_usage (resp\<lparr>usage_metadata := u\<rparr>) =
           Inr (case map_of tu ''prompt_tokens'' of None \<Rightarrow> PInt 0 | Some v \<Rightarrow> v,
                case map_of tu ''completion_tokens'' of None \<Rightarrow> PInt 0 | Some v \<Rightarrow> v)"
  using assms by (simp add: extract_token_usage_def)

lemma query_model_usage_metadata_100_50:
  assumes cl: "get_model (getenv w) (new_client w) m = Inr cl"
    and inv: "invoke w cl [SystemMessage (system_prompt c), HumanMessage q] = Inr resp"
    and a: "response_metadata resp = None \<or> (\<exists>md. response_metadata resp = Some md \<and> map_of md ''token_usage'' = None)"
    and b: "usage_metadata resp = Some (PDict um)"
    and i: "map_of um ''input_tokens'' = Some (PInt 100)"
    and j: "map_of um ''output_tokens'' = Some (PInt 50)"
  shows "\<exists>r cst. query_model w m c q = Inr r \<and> total_tokens r = 150
           \<and> calculate_cost m (PInt 100) (PInt 50) = Inr cst \<and> cost r = cst \<and> error r = None"
proof -
  from get_model_Inr_priced [OF cl] obtain p where p: "MODEL_PRICING m = Some p"
    by blast
  have "extract_token_usage resp = Inr (PInt 100, PInt 50)"
    using extract_usage_metadata_only [OF a b] i j by simp
  from query_model_success [OF cl p inv this] show ?thesis
    by (simp add: calculate_cost_def p)
qed

lemma query_model_no_attributes:
  assumes cl: "get_model (getenv w) (new_client w) m = Inr cl"
    and inv: "invoke w cl [SystemMessage (system_prompt c), HumanMessage q] = Inr resp"
    and a: "response_metadata resp = None \<or> (\<exists>md. response_metadata resp = Some md \<and> map_of md ''token_usage'' = None)"
    and b: "usage_metadata resp = None"
  shows "\<exists>r. query_model w m c q = Inr r \<and> input_tokens r = 0 \<and> output_tokens r = 0
           \<and> total_tokens r = 0 \<and> cost r = 0 \<and> error r = None"
proof -
  from get_model_Inr_priced [OF cl] obtain p where p: "MODEL_PRICING m = Some p"
    by blast
  from query_model_success [OF cl p inv extract_no_attributes [OF a b]] show ?thesis
    by simp
qed

text \<open>
  Claim C3. The extraction reads either shape, and a message with only
  \<^verbatim>\<open>usage_metadata = {input_tokens: 100, output_tokens: 50}\<close> gives 150 total tokens, the
  cost of 100 and 50 tokens and no error (\<open>query_model_usage_metadata_100_50\<close>); a
  message with neither attribute gives zeros and no error
  (\<open>query_model_no_attributes\<close>). But a message that carries neither shape because its
  \<^verbatim>\<open>usage_metadata\<close> is \<^verbatim>\<open>None\<close> passes the \<^verbatim>\<open>hasattr\<close> test of line 49, so line 51
  calls \<^verbatim>\<open>.get\<close> on \<^verbatim>\<open>None\<close>: the handler turns the \<^verbatim>\<open>AttributeError\<close> into an error
  record, where the claim promises zeros with no error. The theorem evaluates the code
  at such a message.
\<close>

theorem query_model_none_usage_is_error:
  "query_model (world_of (Inr none_usage_message)) ''gpt-5'' ''ctx'' ''q''
     = Inr \<lparr>model = ''GPT-5'',
            response = ''Error: '' @ sq @ ''NoneType'' @ sq @ '' object has no attribute ''
                       @ sq @ ''get'' @ sq,
            input_tokens = 0, output_tokens = 0, total_tokens = 0, cost = 0, time = 2,
            error = Some (sq @ ''NoneType'' @ sq @ '' object has no attribute ''
                          @ sq @ ''get'' @ sq)\<rparr>"
  by (simp add: query_model_def get_model_def world_of_def env0_def strict_construct_def try_block_def none_usage_message_def
        extract_token_usage_def except_block_def classify_error_def MODEL_PRICING_def Let_def
        sq_def)

text \<open>
  Claim C10. When the message has a \<^verbatim>\<open>'token_usage'\<close> entry in \<^verbatim>\<open>response_metadata\<close>,
  the counts are read from that entry whatever the \<^verbatim>\<open>usage_metadata\<close> attribute holds
  (also when it is absent), and a count whose key (\<^verbatim>\<open>prompt_tokens\<close>,
  \<^verbatim>\<open>completion_tokens\<close>) is missing from the entry is 0, not the value of
  \<^verbatim>\<open>usage_metadata\<close>.
\<close>

theorem token_usage_precedence:
  assumes cl: "get_model (getenv w) (new_client w) m = Inr cl"
    and inv: "invoke w cl [SystemMessage (system_prompt c), HumanMessage q] = Inr resp"
    and md: "response_metadata resp = Some md"
    and tu: "map_of md ''token_usage'' = Some (PDict tu)"
    and i: "py_get (PDict tu) ''prompt_tokens'' (PInt 0) = Inr (PInt i)"
    and j: "py_get (PDict tu) ''completion_tokens'' (PInt 0) = Inr (PInt j)"
  shows "(\<forall>u. extract_token_usage (resp\<lparr>usage_metadata := u\<rparr>) = Inr (PInt i, PInt j))
         \<and> (\<exists>r. query_model w m c q = Inr r \<and> input_tokens r = i \<and> output_tokens r = j
                \<and> total_tokens r = i + j \<and> error r = None
                \<and> (map_of tu ''prompt_tokens'' = None \<longrightarrow> input_tokens r = 0)
                \<and> (map_of tu ''completion_tokens'' = None \<longrightarrow> output_tokens r = 0))"
proof -
  from get_model_Inr_priced [OF cl] obtain p where p: "MODEL_PRICING m = Some p"
    by blast
  have all: "extract_token_usage (resp\<lparr>usage_metadata := u\<rparr>) = Inr (PInt i, PInt j)" for u
    using extract_token_usage_entry [OF md tu, of u] i j by simp
  from all [of "usage_metadata resp"] have ex: "extract_token_usage resp = Inr (PInt i, PInt j)"
    by simp
  have zi: "map_of tu ''prompt_tokens'' = None \<Longrightarrow> i = 0" using i by simp
  have zj: "map_of tu ''completion_tokens'' = None \<Longrightarrow> j = 0" using j by simp
  from query_model_success [OF cl p inv ex] all zi zj show ?thesis
    by simp
qed

theorem token_usage_precedence_witness:
  "get_model (getenv (world_of (Inr both_shapes_message))) (new_client (world_of (Inr both_shapes_message))) ''gpt-5''
     = Inr \<lparr>chat_class = ChatOpenAI, client_model = ''gpt-5'', temperature = 0,
            api_key = Some ''sk-test'', base_url = None\<rparr>
   \<and> response_metadata both_shapes_message
       = Some [(''token_usage'', PDict [(''completion_tokens'', PInt 7)])]
   \<and> usage_metadata both_shapes_message
       = Some (PDict [(''input_tokens'', PInt 100), (''output_tokens'', PInt 50)])
   \<and> map_of [(''completion_tokens'', PInt 7)] ''prompt_tokens'' = None
   \<and> (\<exists>r. query_model (world_of (Inr both_shapes_message)) ''gpt-5'' ''ctx'' ''q'' = Inr r
          \<and> input_tokens r = 0 \<and> output_tokens r = 7 \<and> total_tokens r = 7 \<and> error r = None)"
proof -
  let ?w = "world_of (Inr both_shapes_message)"
  let ?cl = "\<lparr>chat_class = ChatOpenAI, client_model = ''gpt-5'', temperature = 0,
            api_key = Some ''sk-test'', base_url = None\<rparr>"
  let ?tu = "[(''completion_tokens'', PInt 7)]"
  have g: "get_model (getenv ?w) (new_client ?w) ''gpt-5'' = Inr ?cl"
    by (simp add: get_model_def world_of_def env0_def strict_construct_def)
  have inv: "invoke ?w ?cl [SystemMessage (system_prompt ''ctx''), HumanMessage ''q'']
               = Inr both_shapes_message"
    by (simp add: world_of_def)
  have md: "response_metadata both_shapes_message = Some [(''token_usage'', PDict ?tu)]"
    by (simp add: both_shapes_message_def)
  have um: "usage_metadata both_shapes_message
       = Some (PDict [(''input_tokens'', PInt 100), (''output_tokens'', PInt 50)])"
    by (simp add: both_shapes_message_def)
  have tu: "map_of [(''token_usage'', PDict ?tu)] ''token_usage'' = Some (PDict ?tu)"
    by simp
  have i: "py_get (PDict ?tu) ''prompt_tokens'' (PInt 0) = Inr (PInt 0)" by simp
  have j: "py_get (PDict ?tu) ''completion_tokens'' (PInt 0) = Inr (PInt 7)" by simp
  from token_usage_precedence [OF g inv md tu i j]
  have "\<exists>r. query_model ?w ''gpt-5'' ''ctx'' ''q'' = Inr r
          \<and> input_tokens r = 0 \<and> output_tokens r = 7 \<and> total_tokens r = 7 \<and> error r = None"
    by auto
  with g md um show ?thesis by simp
qed


section \<open>The balance checker\<close>

text \<open>
  Claim C8. \<^verbatim>\<open>check_deepseek_balance\<close> returns the parsed body when the status is 200;
  it returns \<^verbatim>\<open>None\<close> on any other status, when the request or the parsing of the body
  raises, and when the credential is missing; with the variable unset (or empty) it
  returns \<^verbatim>\<open>None\<close> and has sent no request. With a credential it sends exactly the
  one request.
\<close>

theorem check_deepseek_balance_spec:
  "(env ''DEEPSEEK_API_KEY'' = None
      \<longrightarrow> check_deepseek_balance env rg = (PNone, []))
   \<and> (env ''DEEPSEEK_API_KEY'' = Some []
      \<longrightarrow> check_deepseek_balance env rg = (PNone, []))
   \<and> (env ''DEEPSEEK_API_KEY'' = Some key \<and> key \<noteq> []
      \<longrightarrow> snd (check_deepseek_balance env rg) = [balance_request key]
          \<and> (rg (balance_request key) = Inr resp \<and> status_code resp = 200
               \<and> json resp = Inr body
               \<longrightarrow> fst (check_deepseek_balance env rg) = body)
          \<and> (rg (balance_request key) = Inr resp \<and> status_code resp \<noteq> 200
               \<longrightarrow> fst (check_deepseek_balance env rg) = PNone)
          \<and> (rg (balance_request key) = Inr resp \<and> json resp = Inl e
               \<longrightarrow> fst (check_deepseek_balance env rg) = PNone)
          \<and> (rg (balance_request key) = Inl e
               \<longrightarrow> fst (check_deepseek_balance env rg) = PNone))"
  by (auto simp: check_deepseek_balance_def balance_request_def Let_def split: sum.splits)

theorem check_deepseek_balance_spec_witness:
  "check_deepseek_balance Map.empty (http_of (Inr \<lparr>status_code = 200, json = Inr balance_body\<rparr>))
     = (PNone, [])
   \<and> check_deepseek_balance env0 (http_of (Inr \<lparr>status_code = 200, json = Inr balance_body\<rparr>))
     = (balance_body, [balance_request ''ds-test''])
   \<and> check_deepseek_balance env0 (http_of (Inr \<lparr>status_code = 401, json = Inr balance_body\<rparr>))
     = (PNone, [balance_request ''ds-test''])
   \<and> check_deepseek_balance env0
        (http_of (Inr \<lparr>status_code = 200, json = Inl (ExternalError ''Expecting value'')\<rparr>))
     = (PNone, [balance_request ''ds-test''])
   \<and> check_deepseek_balance env0 (http_of (Inl (ExternalError ''Read timed out.'')))
     = (PNone, [balance_request ''ds-test''])"
proof -
  let ?ok = "\<lparr>status_code = 200, json = Inr balance_body\<rparr>"
  let ?no = "\<lparr>status_code = 401, json = Inr balance_body\<rparr>"
  let ?bad = "\<lparr>status_code = 200, json = Inl (ExternalError ''Expecting value'')\<rparr>"
  have k: "env0 ''DEEPSEEK_API_KEY'' = Some ''ds-test'' \<and> ''ds-test'' \<noteq> []"
    by (simp add: env0_def)
  have e: "(Map.empty :: environ) ''DEEPSEEK_API_KEY'' = None" by simp
  have a: "check_deepseek_balance Map.empty (http_of (Inr ?ok)) = (PNone, [])"
    using check_deepseek_balance_spec [of Map.empty "http_of (Inr ?ok)"] e by blast
  have b: "check_deepseek_balance env0 (http_of (Inr ?ok)) = (balance_body, [balance_request ''ds-test''])"
    using check_deepseek_balance_spec
            [of env0 "http_of (Inr ?ok)" "''ds-test''" ?ok balance_body] k
    by (simp add: http_of_def prod_eq_iff)
  have c: "check_deepseek_balance env0 (http_of (Inr ?no)) = (PNone, [balance_request ''ds-test''])"
    using check_deepseek_balance_spec
            [of env0 "http_of (Inr ?no)" "''ds-test''" ?no] k
    by (simp add: http_of_def prod_eq_iff)
  have d: "check_deepseek_balance env0 (http_of (Inr ?bad)) = (PNone, [balance_request ''ds-test''])"
    using check_deepseek_balance_spec
            [of env0 "http_of (Inr ?bad)" "''ds-test''" ?bad _ "ExternalError ''Expecting value''"] k
    by (simp add: http_of_def prod_eq_iff)
  have f: "check_deepseek_balance env0 (http_of (Inl (ExternalError ''Read timed out.'')))
             = (PNone, [balance_request ''ds-test''])"
    using check_deepseek_balance_spec
            [of env0 "http_of (Inl (ExternalError ''Read timed out.''))" "''ds-test''" _ _
                "ExternalError ''Read timed out.''"] k
    by (simp add: http_of_def prod_eq_iff)
  from a b c d f show ?thesis by simp
qed


section \<open>The document loader\<close>





end
